theory Spec2Isabelle
  imports Complex_Main "HOL-Library.AList"
begin

section \<open>py3status net\_rate: the rate sampler of \<open>net_rate.py\<close>\<close>

text \<open>
  The module keeps one previous snapshot of the kernel's per-interface byte counters, reads
  a new one on every call of \<open>currentSpeed\<close>, pairs the rows of the two by position and
  reports the interface with the largest rate. The definitions up to \<open>currentSpeed\<close>
  translate \<open>src/py3status/modules/net_rate.py\<close> function by function; line numbers are
  those of that file.

  Conventions of the embedding.
  \<^item> A Python \<open>str\<close> is a \<open>string\<close>; a \<open>char\<close> stands for a code point below 256 (the
    counter table of the kernel is ASCII).
  \<^item> Python's unbounded \<open>int\<close> is \<open>int\<close>. A Python \<open>float\<close> (the clock, the rates) is an
    exact rational: rounding, infinities and the OverflowError of converting an integer
    beyond the double range are outside the model. What the model keeps of float arithmetic
    is that a true division by zero raises ZeroDivisionError.
  \<^item> An exception is a value \<open>Inl e\<close> of \<open>error + 'a\<close>; the instance fields that
    \<open>currentSpeed\<close> mutates are a record that is passed in and returned, also when the call
    raises, with the assignments made up to the raise.
  \<^item> The outside world of one call (two reads of the devfile, two readings of the clock) is
    a record of inputs.
  \<^item> A \<open>dict\<close> is an association list in insertion order, as dictionaries iterate since
    Python 3.7.
\<close>

subsection \<open>Exceptions\<close>

datatype error = OSError | TypeError | ValueError | IndexError | KeyError | ZeroDivisionError

definition ebind :: "error + 'a \<Rightarrow> ('a \<Rightarrow> error + 'b) \<Rightarrow> error + 'b" where
  "ebind m f = (case m of Inl e \<Rightarrow> Inl e | Inr x \<Rightarrow> f x)"

subsection \<open>Builtins of Python that the module calls\<close>

text \<open>\<open>str.isspace\<close> on the code points below 256: what \<open>strip()\<close> removes.\<close>

definition py_space :: "char \<Rightarrow> bool" where
  "py_space c = (c \<in> set [CHR 0x09, CHR 0x0A, CHR 0x0B, CHR 0x0C, CHR 0x0D,
                           CHR 0x1C, CHR 0x1D, CHR 0x1E, CHR 0x1F, CHR 0x20,
                           CHR 0x85, CHR 0xA0])"

text \<open>\<open>s.strip()\<close>.\<close>

definition py_strip :: "string \<Rightarrow> string" where
  "py_strip s = rev (dropWhile py_space (rev (dropWhile py_space s)))"

text \<open>\<open>s.split(sep)\<close> with a separator of one character: never empty, and two adjacent
  separators give an empty word.\<close>

fun py_split :: "char \<Rightarrow> string \<Rightarrow> string list" where
  "py_split sep [] = [[]]"
| "py_split sep (c # cs) =
     (let ws = py_split sep cs
      in if c = sep then [] # ws else (c # hd ws) # tl ws)"

text \<open>\<open>x in s\<close> for two strings: \<open>x\<close> occurs in \<open>s\<close> as a contiguous run.\<close>

fun starts_with :: "string \<Rightarrow> string \<Rightarrow> bool" where
  "starts_with [] s = True"
| "starts_with (a # x) [] = False"
| "starts_with (a # x) (b # s) = (a = b \<and> starts_with x s)"

fun py_substring :: "string \<Rightarrow> string \<Rightarrow> bool" where
  "py_substring x [] = (x = [])"
| "py_substring x (b # s) = (starts_with x (b # s) \<or> py_substring x s)"

text \<open>\<open>xs[i]\<close> for an index that is not negative.\<close>

definition py_index :: "'a list \<Rightarrow> nat \<Rightarrow> error + 'a" where
  "py_index xs i = (if i < length xs then Inr (xs ! i) else Inl IndexError)"

text \<open>
  \<open>int(s)\<close> for a string: surrounding whitespace is dropped, one sign is allowed, then
  decimal digits, where a single underscore may stand between two digits. Anything else
  raises ValueError. (The optional limit on the number of digits of recent interpreters
  is not modelled.)
\<close>

definition is_digit :: "char \<Rightarrow> bool" where
  "is_digit c = (c \<in> set ''0123456789'')"

definition digit_val :: "char \<Rightarrow> int" where
  "digit_val c = int (of_char c) - 48"

fun py_digits :: "string \<Rightarrow> int \<Rightarrow> int option" where
  "py_digits [] acc = Some acc"
| "py_digits (c # cs) acc =
     (if is_digit c then py_digits cs (10 * acc + digit_val c)
      else if c = CHR ''_'' \<and> cs \<noteq> [] \<and> is_digit (hd cs) then py_digits cs acc
      else None)"

definition py_nat :: "string \<Rightarrow> int option" where
  "py_nat s = (case s of [] \<Rightarrow> None
               | c # cs \<Rightarrow> if is_digit c then py_digits (c # cs) 0 else None)"

definition py_int :: "string \<Rightarrow> error + int" where
  "py_int s =
     (let t = py_strip s;
          r = (case t of
                 [] \<Rightarrow> None
               | c # cs \<Rightarrow>
                   if c = CHR ''-'' then map_option uminus (py_nat cs)
                   else if c = CHR ''+'' then py_nat cs
                   else py_nat t)
      in case r of None \<Rightarrow> Inl ValueError | Some n \<Rightarrow> Inr n)"

text \<open>\<open>a / t\<close> for an integer \<open>a\<close> and a float \<open>t\<close> (true division).\<close>

definition truediv :: "int \<Rightarrow> rat \<Rightarrow> error + rat" where
  "truediv a t = (if t = 0 then Inl ZeroDivisionError else Inr (of_int a / t))"

text \<open>
  \<open>max(d, key=f)\<close> over the entries of a dictionary: ValueError on an empty one; otherwise
  the scan keeps the current best and replaces it only by a strictly greater value.
\<close>

fun max_scan :: "('a \<Rightarrow> rat) \<Rightarrow> 'a \<Rightarrow> 'a list \<Rightarrow> 'a" where
  "max_scan f m [] = m"
| "max_scan f m (x # xs) = max_scan f (if f m < f x then x else m) xs"

definition py_max :: "('a \<Rightarrow> rat) \<Rightarrow> 'a list \<Rightarrow> error + 'a" where
  "py_max f xs = (case xs of [] \<Rightarrow> Inl ValueError | x # ys \<Rightarrow> Inr (max_scan f x ys))"

subsection \<open>Configuration\<close>

text \<open>
  The two interface lists are class attributes that hold either a string (the default
  blacklist is \<open>'lo'\<close>) or a list of strings; \<open>post_config_hook\<close> turns a string into the list
  of its comma-separated parts. The operator \<open>in\<close> is membership on a list and the
  substring test on a string.
\<close>

datatype names = Str string | Lst "string list"

fun py_in :: "string \<Rightarrow> names \<Rightarrow> bool" where
  "py_in x (Str s) = py_substring x s"
| "py_in x (Lst l) = (x \<in> set l)"

record config =
  all_interfaces :: bool
  format_no_connection :: string
  hide_if_zero :: bool
  interfaces :: names
  interfaces_blacklist :: names

text \<open>The class attributes as they are before any user configuration.\<close>

definition class_defaults :: config where
  "class_defaults =
     \<lparr>all_interfaces = True, format_no_connection = [], hide_if_zero = False,
      interfaces = Lst [], interfaces_blacklist = Str ''lo''\<rparr>"

fun as_list :: "names \<Rightarrow> string list" where
  "as_list (Str s) = py_split CHR '','' s"
| "as_list (Lst l) = l"

text \<open>\<open>post_config_hook\<close>, lines 85 to 88: the part that parses the interface lists (the rest
  of the hook builds the value format of the presentation).\<close>

definition post_config_hook :: "config \<Rightarrow> config" where
  "post_config_hook self =
     self\<lparr>interfaces := Lst (as_list (interfaces self)),
          interfaces_blacklist := Lst (as_list (interfaces_blacklist self))\<rparr>"

subsection \<open>Reading a snapshot: \<open>_get_stat\<close>\<close>

type_synonym row = "string list"
type_synonym stat = "row list"

text \<open>The name \<open>dev_filter\<close> tests (line 170): the first word of the stripped line without
  its last character.\<close>

definition dev_name :: "string \<Rightarrow> string" where
  "dev_name x = butlast (hd (py_split CHR '' '' (py_strip x)))"

text \<open>\<open>dev_filter\<close>, lines 168 to 181.\<close>

definition dev_filter :: "config \<Rightarrow> string \<Rightarrow> bool" where
  "dev_filter self x0 =
     (let x = dev_name x0
      in if py_in x (interfaces_blacklist self) then False
         else if all_interfaces self then True
         else if py_in x (interfaces self) then True
         else False)"

text \<open>The words of a line (line 188): split at single spaces, empty words dropped.\<close>

definition words_of :: "string \<Rightarrow> row" where
  "words_of l = filter (\<lambda>w. w \<noteq> []) (py_split CHR '' '' l)"

text \<open>
  \<open>_get_stat\<close>, lines 164 to 191. Its argument is what \<open>open(self.devfile).readlines()\<close> gives: the lines of the
  file, or the error that \<open>open\<close> raises. The result is optional because the source has a
  handler that returns \<open>None\<close>; the handler is for StopIteration, which nothing in the body
  raises, so the model has no branch that gives \<open>None\<close>.
\<close>

definition get_stat :: "config \<Rightarrow> error + string list \<Rightarrow> error + stat option" where
  "get_stat self devfile =
     (case devfile of
        Inl e \<Rightarrow> Inl e
      | Inr ls \<Rightarrow> Inr (Some (map words_of (filter (dev_filter self) (drop 2 ls)))))"

subsection \<open>The sampler's state and the inputs of one call\<close>

text \<open>The instance fields that \<open>__init__\<close> creates and \<open>currentSpeed\<close> updates.\<close>

record state =
  last_interface :: "string option"
  last_stat :: "stat option"
  last_time :: rat

text \<open>
  One call of \<open>currentSpeed\<close> reads the devfile, reads the clock, and after the loop reads
  both once more: \<open>devfile1\<close>, \<open>time1\<close>, \<open>devfile2\<close>, \<open>time2\<close>, in the order of the calls.
\<close>

record env =
  devfile1 :: "error + string list"
  time1 :: rat
  devfile2 :: "error + string list"
  time2 :: rat

text \<open>\<open>__init__\<close>, lines 78 to 81: \<open>self\<close> is the instance as it is when the constructor
  runs.\<close>

definition init :: "config \<Rightarrow> error + string list \<Rightarrow> rat \<Rightarrow> error + state" where
  "init self devfile now =
     (case get_stat self devfile of
        Inl e \<Rightarrow> Inl e
      | Inr s \<Rightarrow> Inr \<lparr>last_interface = None, last_stat = s, last_time = now\<rparr>)"

subsection \<open>The rates of one cycle\<close>

text \<open>One entry of \<open>deltas\<close>: the dictionary with the keys \<open>'total'\<close>, \<open>'up'\<close>, \<open>'down'\<close>.\<close>

record delta =
  total_rate :: rat
  up :: rat
  down :: rat

type_synonym deltas = "(string \<times> delta) list"

text \<open>\<open>int(new[i]) - int(old[i])\<close> of lines 113 and 114, evaluated from left to right.\<close>

definition counter_diff :: "row \<Rightarrow> row \<Rightarrow> nat \<Rightarrow> error + int" where
  "counter_diff old new i =
     ebind (py_index new i) (\<lambda>x.
     ebind (py_int x) (\<lambda>a.
     ebind (py_index old i) (\<lambda>y.
     ebind (py_int y) (\<lambda>b.
     Inr (a - b)))))"

text \<open>The body of the loop over \<open>zip(self.last_stat, ns)\<close>, lines 113 to 119: the entry it
  stores.\<close>

definition pair_delta :: "rat \<Rightarrow> row \<Rightarrow> row \<Rightarrow> error + string \<times> delta" where
  "pair_delta timedelta old new =
     ebind (counter_diff old new 1) (\<lambda>down0.
     ebind (counter_diff old new 9) (\<lambda>up0.
     ebind (truediv down0 timedelta) (\<lambda>down1.
     ebind (truediv up0 timedelta) (\<lambda>up1.
     ebind (py_index new 0) (\<lambda>name.
     Inr (name, \<lparr>total_rate = up1 + down1, up = up1, down = down1\<rparr>))))))"

text \<open>The loop of line 112. \<open>deltas[k] = v\<close> replaces the value of a key that is there, in place, and
  appends a new key: \<open>AList.update\<close>.\<close>

fun deltas_loop :: "rat \<Rightarrow> (row \<times> row) list \<Rightarrow> deltas \<Rightarrow> error + deltas" where
  "deltas_loop timedelta [] ds = Inr ds"
| "deltas_loop timedelta ((old, new) # ps) ds =
     ebind (pair_delta timedelta old new) (\<lambda>(k, v).
     deltas_loop timedelta ps (AList.update k v ds))"

subsection \<open>\<open>currentSpeed\<close>\<close>

text \<open>What the \<open>try\<close> statement leaves in \<open>interface\<close>, \<open>delta\<close> and \<open>hide\<close>.\<close>

record sample =
  interface :: "string option"
  delta :: "delta option"
  hide :: bool

text \<open>
  The tests \<open>if interface\<close> and \<open>not interface\<close>: \<open>None\<close> and the empty string are false. The
  result is the name when \<open>interface\<close> is true.
\<close>

definition truthy :: "string option \<Rightarrow> string option" where
  "truthy x = (case x of None \<Rightarrow> None | Some s \<Rightarrow> if s = [] then None else Some s)"

text \<open>
  From \<open>max\<close> to the end of the \<open>try\<close> block, lines 126 to 138. \<open>max\<close> iterates the keys of
  \<open>deltas\<close> and its key function looks each key up; the model scans the entries, which is
  the same scan. The last lookup \<open>deltas[interface]\<close> is by name and raises KeyError for a
  missing one.
\<close>

definition select :: "config \<Rightarrow> deltas \<Rightarrow> state \<Rightarrow> (error + sample) \<times> state" where
  "select self ds st =
     (case py_max (\<lambda>(k, v). total_rate v) ds of
        Inl e \<Rightarrow> (Inl e, st)
      | Inr (k, v) \<Rightarrow>
          (let (i, h, st') =
                 (if total_rate v = 0 then (last_interface st, hide_if_zero self, st)
                  else (Some k, False, st\<lparr>last_interface := Some k\<rparr>))
           in case truthy i of
                Some name \<Rightarrow>
                  (case map_of ds name of
                     None \<Rightarrow> (Inl KeyError, st')
                   | Some d \<Rightarrow> (Inr \<lparr>interface = i, delta = Some d, hide = h\<rparr>, st'))
              | None \<Rightarrow> (Inr \<lparr>interface = i, delta = None, hide = h\<rparr>, st')))"

text \<open>
  The body of the \<open>try\<close> block, lines 109 to 138, given the snapshot \<open>ns\<close> read before it
  on line 105. \<open>zip\<close> raises TypeError when one of its arguments is \<open>None\<close> and stops at the
  end of the shorter list otherwise. The two assignments to \<open>last_stat\<close> and \<open>last_time\<close>
  follow the loop.
\<close>

definition try_body :: "config \<Rightarrow> env \<Rightarrow> stat option \<Rightarrow> state \<Rightarrow> (error + sample) \<times> state" where
  "try_body self e ns st =
     (let timedelta = time1 e - last_time st
      in case last_stat st of
           None \<Rightarrow> (Inl TypeError, st)
         | Some old \<Rightarrow>
             (case ns of
                None \<Rightarrow> (Inl TypeError, st)
              | Some new \<Rightarrow>
                  (case deltas_loop timedelta (zip old new) [] of
                     Inl err \<Rightarrow> (Inl err, st)
                   | Inr ds \<Rightarrow>
                       (case get_stat self (devfile2 e) of
                          Inl err \<Rightarrow> (Inl err, st)
                        | Inr s \<Rightarrow>
                            select self ds (st\<lparr>last_stat := s, last_time := time2 e\<rparr>)))))"

text \<open>The result of the handler \<open>except TypeError\<close>, lines 140 to 143.\<close>

definition no_data :: "config \<Rightarrow> sample" where
  "no_data self = \<lparr>interface = None, delta = None, hide = hide_if_zero self\<rparr>"

text \<open>
  \<open>currentSpeed\<close> up to the end of the \<open>try\<close> statement, lines 105 to 143: the first read
  is outside the \<open>try\<close>; of what the body raises only TypeError is caught.
\<close>

definition currentSpeed_sample :: "config \<Rightarrow> env \<Rightarrow> state \<Rightarrow> (error + sample) \<times> state" where
  "currentSpeed_sample self e st =
     (case get_stat self (devfile1 e) of
        Inl err \<Rightarrow> (Inl err, st)
      | Inr ns \<Rightarrow>
          (case try_body self e ns st of
             (Inl err, st') \<Rightarrow>
               if err = TypeError then (Inr (no_data self), st') else (Inl err, st')
           | (Inr r, st') \<Rightarrow> (Inr r, st')))"

text \<open>
  The text of the response, lines 147 to 160. \<open>render name d\<close> stands for the calls into
  the host (\<open>threshold_get_color\<close>, \<open>format_units\<close>, \<open>safe_format\<close>) on the name without its
  last character and the three rates; the host also computes \<open>cached_until\<close>, which is left
  out. Subscripting \<open>delta\<close> when it is \<open>None\<close> raises TypeError, outside the \<open>try\<close>.
\<close>

definition full_text :: "config \<Rightarrow> (string \<Rightarrow> delta \<Rightarrow> string) \<Rightarrow> sample \<Rightarrow> error + string" where
  "full_text self render r =
     (if hide r then Inr []
      else case truthy (interface r) of
             None \<Rightarrow> Inr (format_no_connection self)
           | Some name \<Rightarrow>
               (case delta r of
                  None \<Rightarrow> Inl TypeError
                | Some d \<Rightarrow> Inr (render (butlast name) d)))"

definition currentSpeed ::
  "config \<Rightarrow> (string \<Rightarrow> delta \<Rightarrow> string) \<Rightarrow> env \<Rightarrow> state \<Rightarrow> (error + string) \<times> state" where
  "currentSpeed self render e st =
     (case currentSpeed_sample self e st of
        (Inl err, st') \<Rightarrow> (Inl err, st')
      | (Inr r, st') \<Rightarrow> (full_text self render r, st'))"

subsection \<open>The eligibility rule as the specification words it\<close>


subsection \<open>Sample data\<close>

text \<open>
  Lines in the layout of \<open>/proc/net/dev\<close>: two header lines, then one line for each
  interface with sixteen counters, of which the first is the bytes received and the ninth
  the bytes sent. The second and the tenth count packets.
\<close>

definition ex_header :: "string list" where
  "ex_header =
     [''Inter-|   Receive                        |  Transmit\<newline>'',
      '' face |bytes packets errs drop fifo frame compressed multicast|bytes packets\<newline>'']"

definition ex_lo :: string where
  "ex_lo = ''    lo: 77 1 0 0 0 0 0 0 77 1 0 0 0 0 0 0\<newline>''"

definition ex_eth0_a :: string where
  "ex_eth0_a = ''  eth0: 1000 10 0 0 0 0 0 0 200 5 0 0 0 0 0 0\<newline>''"

definition ex_eth0_b :: string where
  "ex_eth0_b = ''  eth0: 2000 17 0 0 0 0 0 0 700 8 0 0 0 0 0 0\<newline>''"

definition ex_wlan0_a :: string where
  "ex_wlan0_a = '' wlan0: 500 4 0 0 0 0 0 0 50 2 0 0 0 0 0 0\<newline>''"

text \<open>The same interface after its receive counter went down by 100.\<close>

definition ex_wlan0_b :: string where
  "ex_wlan0_b = '' wlan0: 400 4 0 0 0 0 0 0 50 2 0 0 0 0 0 0\<newline>''"



definition ex_usb0 :: string where
  "ex_usb0 = ''  usb0: 30 1 0 0 0 0 0 0 40 1 0 0 0 0 0 0\<newline>''"

text \<open>The default configuration after \<open>post_config_hook\<close>.\<close>

definition ex_config :: config where
  "ex_config = post_config_hook class_defaults"

text \<open>The state after a first snapshot of \<open>eth0\<close> and \<open>wlan0\<close> at time 10.\<close>

definition ex_state :: "string option \<Rightarrow> state" where
  "ex_state li =
     \<lparr>last_interface = li,
      last_stat = Some [words_of ex_eth0_a, words_of ex_wlan0_a],
      last_time = 10\<rparr>"

text \<open>A call that reads the same lines twice, at the same time.\<close>

definition ex_env :: "string list \<Rightarrow> rat \<Rightarrow> env" where
  "ex_env ls t =
     \<lparr>devfile1 = Inr (ex_header @ ls), time1 = t,
      devfile2 = Inr (ex_header @ ls), time2 = t\<rparr>"

section \<open>Properties\<close>

subsection \<open>Exceptions and builtins\<close>

lemma ebind_Inl: "ebind (Inl e) f = Inl e"
  by (simp add: ebind_def)

lemma ebind_Inr: "ebind (Inr x) f = f x"
  by (simp add: ebind_def)

lemma ebind_eq_Inr: "ebind m f = Inr y \<longleftrightarrow> (\<exists>x. m = Inr x \<and> f x = Inr y)"
  by (cases m) (simp_all add: ebind_def)

lemma py_index_eq_Inr: "py_index xs i = Inr x \<longleftrightarrow> i < length xs \<and> x = xs ! i"
  by (auto simp: py_index_def)

lemma truediv_eq_Inr: "truediv a t = Inr q \<longleftrightarrow> t \<noteq> 0 \<and> q = of_int a / t"
  by (auto simp: truediv_def)

text \<open>The first word of a line of the counter table: the name with its colon, whatever
  the indentation.\<close>

lemma py_split_hd: "sep \<notin> set w \<Longrightarrow> hd (py_split sep (w @ sep # r)) = w"
  by (induction w) (auto simp: Let_def)

lemma py_split_hd_whole: "sep \<notin> set w \<Longrightarrow> hd (py_split sep w) = w"
  by (induction w) (auto simp: Let_def)

lemma rstrip_append:
  "rev (dropWhile P (rev (a @ b))) =
     (if \<forall>x\<in>set b. P x then rev (dropWhile P (rev a)) else a @ rev (dropWhile P (rev b)))"
  by (simp add: dropWhile_append)

lemma rstrip_prefix: "\<exists>c. b = rev (dropWhile P (rev b)) @ c"
proof -
  have "rev b = takeWhile P (rev b) @ dropWhile P (rev b)" by simp
  then have "b = rev (dropWhile P (rev b)) @ rev (takeWhile P (rev b))"
    by (metis rev_append rev_rev_ident)
  then show ?thesis ..
qed

lemma py_space_colon: "\<not> py_space CHR '':''" and py_space_blank: "py_space CHR '' ''"
  by (simp_all add: py_space_def)

lemma first_word_of_row:
  assumes "CHR '' '' \<notin> set name" and "name \<noteq> []" and "\<not> py_space (hd name)"
  shows "hd (py_split CHR '' '' (py_strip (replicate n CHR '' '' @ name @ '':'' @ CHR '' '' # rest)))
           = name @ '':''"
proof -
  define a where "a = name @ '':''"
  define b where "b = CHR '' '' # rest"
  have lead: "dropWhile py_space (replicate n CHR '' '' @ name @ '':'' @ CHR '' '' # rest) = a @ b"
    using assms(2,3) by (cases name) (simp_all add: dropWhile_append py_space_blank a_def b_def)
  have a: "rev (dropWhile py_space (rev a)) = a"
    by (simp add: py_space_colon a_def)
  have nosp: "CHR '' '' \<notin> set a" using assms(1) by (simp add: a_def)
  have strip: "py_strip (replicate n CHR '' '' @ name @ '':'' @ CHR '' '' # rest) =
      (if \<forall>x\<in>set b. py_space x then a else a @ rev (dropWhile py_space (rev b)))"
    unfolding py_strip_def lead rstrip_append [of py_space a b] a ..
  show ?thesis
  proof (cases "\<forall>x\<in>set b. py_space x")
    case True
    with strip py_split_hd_whole [OF nosp] show ?thesis by (simp add: a_def)
  next
    case False
    define y where "y = rev (dropWhile py_space (rev b))"
    from False have "y \<noteq> []" by (auto simp: y_def)
    moreover obtain c where "b = y @ c" using rstrip_prefix [of b py_space] y_def by blast
    ultimately obtain z where y: "y = CHR '' '' # z" by (cases y) (auto simp: b_def)
    from False strip have "py_strip (replicate n CHR '' '' @ name @ '':'' @ CHR '' '' # rest) = a @ y"
      by (simp add: y_def)
    then show ?thesis using py_split_hd [OF nosp, of z] by (simp add: y a_def)
  qed
qed

lemma dev_name_of_row:
  assumes "CHR '' '' \<notin> set name" and "name \<noteq> []" and "\<not> py_space (hd name)"
  shows "dev_name (replicate n CHR '' '' @ name @ '':'' @ CHR '' '' # rest) = name"
  unfolding dev_name_def first_word_of_row [OF assms] by simp



lemma py_max_eq_Inl: "py_max f xs = Inl e \<longleftrightarrow> xs = [] \<and> e = ValueError"
  by (cases xs) (auto simp: py_max_def)

subsection \<open>The loop over the paired rows\<close>

lemma counter_diff_eq_Inr:
  "counter_diff old new i = Inr n \<longleftrightarrow>
     (\<exists>a b. i < length new \<and> py_int (new ! i) = Inr a \<and>
            i < length old \<and> py_int (old ! i) = Inr b \<and> n = a - b)"
  unfolding counter_diff_def ebind_eq_Inr py_index_eq_Inr by auto

lemma pair_delta_eq_Inr:
  "pair_delta td old new = Inr (k, d) \<longleftrightarrow>
     (\<exists>rx tx. counter_diff old new 1 = Inr rx \<and> counter_diff old new 9 = Inr tx \<and>
        td \<noteq> 0 \<and> k = new ! 0 \<and>
        d = \<lparr>total_rate = of_int tx / td + of_int rx / td,
             up = of_int tx / td, down = of_int rx / td\<rparr>)"
  unfolding pair_delta_def ebind_eq_Inr py_index_eq_Inr truediv_eq_Inr
  by (auto simp: counter_diff_eq_Inr)

text \<open>A loop that ends without an exception has stored one entry for each pair, in order.\<close>

lemma deltas_loop_Inr:
  "deltas_loop td ps ds = Inr ds' \<Longrightarrow>
     \<exists>kvs. map (\<lambda>(old, new). pair_delta td old new) ps = map Inr kvs \<and>
           ds' = fold (\<lambda>(k, v). AList.update k v) kvs ds"
proof (induction ps arbitrary: ds)
  case Nil
  then show ?case by simp
next
  case (Cons p ps)
  obtain old new where p: "p = (old, new)" by (cases p)
  from Cons.prems obtain k v where kv: "pair_delta td old new = Inr (k, v)"
    and rest: "deltas_loop td ps (AList.update k v ds) = Inr ds'"
    by (auto simp: p ebind_eq_Inr)
  from Cons.IH [OF rest] obtain kvs where
    "map (\<lambda>(old, new). pair_delta td old new) ps = map Inr kvs"
    "ds' = fold (\<lambda>(k, v). AList.update k v) kvs (AList.update k v ds)"
    by blast
  then have "map (\<lambda>(old, new). pair_delta td old new) (p # ps) = map Inr ((k, v) # kvs) \<and>
     ds' = fold (\<lambda>(k, v). AList.update k v) ((k, v) # kvs) ds"
    by (simp add: p kv)
  then show ?case by blast
qed

lemma map_of_fold_update:
  "map_of (fold (\<lambda>(k, v). AList.update k v) kvs ds) = map_of ds ++ map_of (rev kvs)"
proof (induction kvs arbitrary: ds)
  case Nil
  then show ?case by simp
next
  case (Cons kv kvs)
  obtain k v where kv: "kv = (k, v)" by (cases kv)
  show ?case
    by (simp add: kv Cons.IH update_conv' map_add_def fun_eq_iff split: option.splits)
qed


subsection \<open>The end of the \<open>try\<close> block\<close>

lemma select_not_TypeError: "fst (select self ds st) \<noteq> Inl TypeError"
  by (auto simp: select_def py_max_eq_Inl split: sum.splits prod.splits option.splits if_splits)

lemma select_last_stat: "last_stat (snd (select self ds st)) = last_stat st"
  and select_last_time: "last_time (snd (select self ds st)) = last_time st"
  by (auto simp: select_def split: sum.splits prod.splits option.splits if_splits)

text \<open>
  When both snapshots are there, the loop ends and the second read succeeds, the call is
  \<open>select\<close> on the rates, in the state with the new snapshot and time: nothing that
  \<open>select\<close> raises is caught.
\<close>

lemma currentSpeed_sample_paired:
  assumes "last_stat st = Some old" and "get_stat self (devfile1 e) = Inr (Some new)"
    and "deltas_loop (time1 e - last_time st) (zip old new) [] = Inr ds"
    and "get_stat self (devfile2 e) = Inr s"
  shows "currentSpeed_sample self e st =
           select self ds (st\<lparr>last_stat := s, last_time := time2 e\<rparr>)"
proof -
  have "try_body self e (Some new) st =
          select self ds (st\<lparr>last_stat := s, last_time := time2 e\<rparr>)"
    using assms by (simp add: try_body_def)
  moreover obtain r st' where
    sel: "select self ds (st\<lparr>last_stat := s, last_time := time2 e\<rparr>) = (r, st')"
    by (cases "select self ds (st\<lparr>last_stat := s, last_time := time2 e\<rparr>)")
  moreover have "r \<noteq> Inl TypeError"
    using select_not_TypeError [of self ds "st\<lparr>last_stat := s, last_time := time2 e\<rparr>"] sel
    by simp
  ultimately show ?thesis
    using assms(2) by (cases r) (simp_all add: currentSpeed_sample_def)
qed

subsection \<open>More on the loop, the snapshots and the selection\<close>

text \<open>The entry that the loop leaves for a row is the one of the last row of that name.\<close>

lemma map_of_rev_nth:
  assumes "i < length kvs" and "kvs ! i = (k, v)"
    and "\<forall>j. i < j \<and> j < length kvs \<longrightarrow> fst (kvs ! j) \<noteq> k"
  shows "map_of (rev kvs) k = Some v"
proof -
  have kvs: "kvs = take i kvs @ (k, v) # drop (Suc i) kvs"
    using assms(1,2) by (metis id_take_nth_drop)
  have "k \<notin> fst ` set (drop (Suc i) kvs)"
  proof
    assume "k \<in> fst ` set (drop (Suc i) kvs)"
    then obtain p where "p \<in> set (drop (Suc i) kvs)" and "fst p = k" by auto
    then obtain n where "n < length (drop (Suc i) kvs)" and "drop (Suc i) kvs ! n = p"
      by (auto simp: in_set_conv_nth)
    then have "i < Suc i + n \<and> Suc i + n < length kvs" and "kvs ! (Suc i + n) = p" by auto
    with assms(3) \<open>fst p = k\<close> show False by blast
  qed
  then have none: "map_of (rev (drop (Suc i) kvs)) k = None"
    by (simp add: map_of_eq_None_iff)
  have "rev kvs = rev (drop (Suc i) kvs) @ (k, v) # rev (take i kvs)"
    by (subst kvs) simp
  then show ?thesis
    using none by (simp add: map_add_def)
qed

lemma deltas_loop_nth:
  assumes "deltas_loop td ps [] = Inr ds" and "i < length ps"
    and "\<forall>j. i < j \<and> j < length ps \<longrightarrow> snd (ps ! j) ! 0 \<noteq> snd (ps ! i) ! 0"
  shows "\<exists>v. pair_delta td (fst (ps ! i)) (snd (ps ! i)) = Inr (snd (ps ! i) ! 0, v) \<and>
             map_of ds (snd (ps ! i) ! 0) = Some v"
proof -
  from deltas_loop_Inr [OF assms(1)] obtain kvs where
    m: "map (\<lambda>(old, new). pair_delta td old new) ps = map Inr kvs"
    and ds: "ds = fold (\<lambda>(k, v). AList.update k v) kvs []" by blast
  from m have len: "length kvs = length ps" by (metis length_map)
  have nth: "pair_delta td (fst (ps ! j)) (snd (ps ! j)) = Inr (kvs ! j)" if "j < length ps" for j
  proof -
    have "map (\<lambda>(old, new). pair_delta td old new) ps ! j = map Inr kvs ! j" using m by simp
    with that len show ?thesis by (simp add: case_prod_beta)
  qed
  have key: "fst (kvs ! j) = snd (ps ! j) ! 0" if "j < length ps" for j
    using nth [OF that] pair_delta_eq_Inr [of td "fst (ps ! j)" "snd (ps ! j)" "fst (kvs ! j)" "snd (kvs ! j)"]
    by auto
  have "kvs ! i = (snd (ps ! i) ! 0, snd (kvs ! i))"
    using key [OF assms(2)] by (metis prod.collapse)
  moreover have "\<forall>j. i < j \<and> j < length kvs \<longrightarrow> fst (kvs ! j) \<noteq> snd (ps ! i) ! 0"
    using assms(3) key len by simp
  ultimately have "map_of (rev kvs) (snd (ps ! i) ! 0) = Some (snd (kvs ! i))"
    using map_of_rev_nth [of i kvs] assms(2) len by simp
  then have "map_of ds (snd (ps ! i) ! 0) = Some (snd (kvs ! i))"
    by (simp add: ds map_of_fold_update)
  moreover have "pair_delta td (fst (ps ! i)) (snd (ps ! i)) = Inr (snd (ps ! i) ! 0, snd (kvs ! i))"
    using nth [OF assms(2)] \<open>kvs ! i = _\<close> by simp
  ultimately show ?thesis by blast
qed





text \<open>\<open>zip\<close> looks at no row beyond the length of the shorter list.\<close>

lemma zip_take_min: "zip (take (min (length xs) (length ys)) xs) (take (min (length xs) (length ys)) ys) = zip xs ys"
  by (simp add: take_zip [symmetric])

text \<open>What the loop can raise: never TypeError, the one exception that is caught.\<close>

lemma counter_diff_Inl: "counter_diff old new i = Inl err \<Longrightarrow> err \<in> {IndexError, ValueError}"
  by (auto simp: counter_diff_def ebind_def py_index_def py_int_def Let_def
           split: sum.splits if_splits option.splits)



lemma pair_delta_zero:
  "\<exists>err. pair_delta 0 old new = Inl err \<and> err \<in> {IndexError, ValueError, ZeroDivisionError} \<and>
     ((\<exists>rx tx. counter_diff old new 1 = Inr rx \<and> counter_diff old new 9 = Inr tx) \<longrightarrow>
        err = ZeroDivisionError)"
proof (cases "counter_diff old new 1")
  case (Inl err)
  with counter_diff_Inl [OF Inl] show ?thesis by (auto simp: pair_delta_def ebind_def)
next
  case rx: (Inr rx)
  show ?thesis
  proof (cases "counter_diff old new 9")
    case (Inl err)
    with rx counter_diff_Inl [OF Inl] show ?thesis by (auto simp: pair_delta_def ebind_def)
  next
    case (Inr tx)
    with rx show ?thesis by (simp add: pair_delta_def ebind_def truediv_def)
  qed
qed


lemma select_zero:
  assumes "py_max (\<lambda>(k, v). total_rate v) ds = Inr (k, v)" and "total_rate v = 0"
  shows "select self ds st =
           (case last_interface st of
              None \<Rightarrow> (Inr (no_data self), st)
            | Some li \<Rightarrow>
                if li = [] then (Inr \<lparr>interface = Some li, delta = None, hide = hide_if_zero self\<rparr>, st)
                else (case map_of ds li of
                        None \<Rightarrow> (Inl KeyError, st)
                      | Some d \<Rightarrow> (Inr \<lparr>interface = Some li, delta = Some d, hide = hide_if_zero self\<rparr>, st)))"
  using assms by (simp add: select_def truthy_def no_data_def split: option.splits)


text \<open>
  \<open>_get_stat\<close> never returns \<open>None\<close>, so a sampler that \<open>__init__\<close> has built keeps a snapshot
  for ever: the handler for TypeError runs only from a state whose \<open>last_stat\<close> is \<open>None\<close>,
  the value that the handler inside \<open>_get_stat\<close> was written to return.
\<close>

lemma get_stat_not_None: "get_stat self d \<noteq> Inr None"
  by (simp add: get_stat_def split: sum.splits)

lemma init_last_stat: "init self d now = Inr st \<Longrightarrow> last_stat st \<noteq> None"
  by (auto simp: init_def get_stat_def split: sum.splits)

lemma try_body_last_stat:
  "last_stat st \<noteq> None \<Longrightarrow> last_stat (snd (try_body self e ns st)) \<noteq> None"
  using get_stat_not_None [of self "devfile2 e"]
  by (auto simp: try_body_def select_last_stat split: option.splits sum.splits)

lemma currentSpeed_sample_last_stat:
  assumes "last_stat st \<noteq> None"
  shows "last_stat (snd (currentSpeed_sample self e st)) \<noteq> None"
proof (cases "get_stat self (devfile1 e)")
  case (Inl err)
  with assms show ?thesis by (simp add: currentSpeed_sample_def)
next
  case (Inr ns)
  obtain r st' where tb: "try_body self e ns st = (r, st')" by (cases "try_body self e ns st")
  with try_body_last_stat [OF assms, of self e ns] have "last_stat st' \<noteq> None" by simp
  with Inr tb show ?thesis by (cases r) (simp_all add: currentSpeed_sample_def)
qed

text \<open>How the result of the handler is shown.\<close>

lemma full_text_no_data:
  "full_text self render (no_data self) =
     Inr (if hide_if_zero self then [] else format_no_connection self)"
  by (simp add: full_text_def no_data_def truthy_def)

section \<open>The claims\<close>

subsection \<open>C1: snapshots of different lengths\<close>

text \<open>
  As stated, C1 says that a call whose previous and current snapshots differ in length
  returns NoData and computes no rate from a truncated pairing. The source has no test of
  the lengths: \<open>zip\<close> stops at the shorter list. With two rows stored and three rows read,
  the call reports \<open>eth0\<close> with the rates of the first pair.
\<close>

theorem C1_length_mismatch_counterexample:
  "last_stat (ex_state None) = Some [words_of ex_eth0_a, words_of ex_wlan0_a] \<and>
   get_stat ex_config (devfile1 (ex_env [ex_lo, ex_eth0_b, ex_wlan0_a, ex_usb0] 11)) =
     Inr (Some [words_of ex_eth0_b, words_of ex_wlan0_a, words_of ex_usb0]) \<and>
   fst (currentSpeed_sample ex_config (ex_env [ex_lo, ex_eth0_b, ex_wlan0_a, ex_usb0] 11)
          (ex_state None)) =
     Inr \<lparr>interface = Some ''eth0:'',
          delta = Some \<lparr>total_rate = 1500, up = 500, down = 1000\<rparr>, hide = False\<rparr> \<and>
   fst (currentSpeed_sample ex_config (ex_env [ex_lo, ex_eth0_b, ex_wlan0_a, ex_usb0] 11)
          (ex_state None)) \<noteq> Inr (no_data ex_config)"
  by code_simp

text \<open>
  Claim C1, amended. When the previous and the current filtered sequences differ in length,
  the call pairs the first \<open>min\<close> of the two lengths rows of each by position and goes on as
  in any other cycle: with the rates \<open>ds\<close> of those pairs its outcome is that of the
  selection on \<open>ds\<close> (so a rate is computed from the truncated pairing, and the result is
  NoData only when the selection gives it). The stored snapshot becomes the second read of
  the cycle, so the next cycle pairs against the new shape.
\<close>

theorem C1_length_mismatch_truncates:
  assumes "last_stat st = Some old" and "get_stat self (devfile1 e) = Inr (Some new)"
    and "n = min (length old) (length new)"
    and "deltas_loop (time1 e - last_time st) (zip (take n old) (take n new)) [] = Inr ds"
    and "get_stat self (devfile2 e) = Inr s"
  shows "currentSpeed_sample self e st =
           select self ds (st\<lparr>last_stat := s, last_time := time2 e\<rparr>) \<and>
         last_stat (snd (currentSpeed_sample self e st)) = s"
proof -
  from assms(3,4) have "deltas_loop (time1 e - last_time st) (zip old new) [] = Inr ds"
    by (simp add: zip_take_min)
  from currentSpeed_sample_paired [OF assms(1,2) this assms(5)]
  show ?thesis by (simp add: select_last_stat)
qed

theorem C1_length_mismatch_truncates_witness:
  "last_stat (ex_state None) = Some [words_of ex_eth0_a, words_of ex_wlan0_a] \<and>
   get_stat ex_config (devfile1 (ex_env [ex_usb0, ex_eth0_b, ex_wlan0_a] 11)) =
     Inr (Some [words_of ex_usb0, words_of ex_eth0_b, words_of ex_wlan0_a]) \<and>
   currentSpeed_sample ex_config (ex_env [ex_usb0, ex_eth0_b, ex_wlan0_a] 11) (ex_state None) =
     select ex_config
       [(''usb0:'', \<lparr>total_rate = - 1130, up = - 160, down = - 970\<rparr>),
        (''eth0:'', \<lparr>total_rate = 2150, up = 650, down = 1500\<rparr>)]
       ((ex_state None)\<lparr>last_stat := Some [words_of ex_usb0, words_of ex_eth0_b, words_of ex_wlan0_a],
                        last_time := time2 (ex_env [ex_usb0, ex_eth0_b, ex_wlan0_a] 11)\<rparr>) \<and>
   last_stat (snd (currentSpeed_sample ex_config (ex_env [ex_usb0, ex_eth0_b, ex_wlan0_a] 11)
                     (ex_state None))) =
     Some [words_of ex_usb0, words_of ex_eth0_b, words_of ex_wlan0_a] \<and>
   fst (currentSpeed_sample ex_config (ex_env [ex_usb0, ex_eth0_b, ex_wlan0_a] 11) (ex_state None)) =
     Inr \<lparr>interface = Some ''eth0:'',
          delta = Some \<lparr>total_rate = 2150, up = 650, down = 1500\<rparr>, hide = False\<rparr>"
proof -
  let ?e = "ex_env [ex_usb0, ex_eth0_b, ex_wlan0_a] 11"
  let ?old = "[words_of ex_eth0_a, words_of ex_wlan0_a]"
  let ?new = "[words_of ex_usb0, words_of ex_eth0_b, words_of ex_wlan0_a]"
  let ?ds = "[(''usb0:'', \<lparr>total_rate = - 1130, up = - 160, down = - 970\<rparr>),
              (''eth0:'', \<lparr>total_rate = 2150, up = 650, down = 1500\<rparr>)]"
  have h1: "last_stat (ex_state None) = Some ?old" by (simp add: ex_state_def)
  have h2: "get_stat ex_config (devfile1 ?e) = Inr (Some ?new)" by code_simp
  have h3: "(2::nat) = min (length ?old) (length ?new)" by simp
  have h4: "deltas_loop (time1 ?e - last_time (ex_state None)) (zip (take 2 ?old) (take 2 ?new)) [] =
              Inr ?ds" by code_simp
  have h5: "get_stat ex_config (devfile2 ?e) = Inr (Some ?new)" by code_simp
  have r: "fst (currentSpeed_sample ex_config ?e (ex_state None)) =
     Inr \<lparr>interface = Some ''eth0:'',
          delta = Some \<lparr>total_rate = 2150, up = 650, down = 1500\<rparr>, hide = False\<rparr>"
    by code_simp
  from C1_length_mismatch_truncates [OF h1 h2 h3 h4 h5] h1 h2 r show ?thesis by blast
qed

subsection \<open>C2: the fallback to the last reported interface\<close>

text \<open>
  As stated, C2 says that in the fallback the numbers returned are those of the interface
  that \<open>max\<close> selected, not those of the last reported interface. The source assigns
  \<open>interface = self.last_interface\<close> before it reads \<open>deltas[interface]\<close>, so the numbers are
  those of the last reported interface. Here \<open>eth0\<close> is selected with a total of 0 and all
  its rates 0, while \<open>wlan0\<close>, reported last, has lost 100 bytes on its receive counter.
\<close>

theorem C2_zero_fallback_counterexample:
  "deltas_loop 1 (zip [words_of ex_eth0_a, words_of ex_wlan0_a]
                      [words_of ex_eth0_a, words_of ex_wlan0_b]) [] =
     Inr [(''eth0:'', \<lparr>total_rate = 0, up = 0, down = 0\<rparr>),
          (''wlan0:'', \<lparr>total_rate = - 100, up = 0, down = - 100\<rparr>)] \<and>
   py_max (\<lambda>(k, v). total_rate v)
     [(''eth0:'', \<lparr>total_rate = 0, up = 0, down = 0\<rparr>),
      (''wlan0:'', \<lparr>total_rate = - 100, up = 0, down = - 100\<rparr>)] =
     Inr (''eth0:'', \<lparr>total_rate = 0, up = 0, down = 0\<rparr>) \<and>
   fst (currentSpeed_sample ex_config (ex_env [ex_lo, ex_eth0_a, ex_wlan0_b] 11)
          (ex_state (Some ''wlan0:''))) =
     Inr \<lparr>interface = Some ''wlan0:'',
          delta = Some \<lparr>total_rate = - 100, up = 0, down = - 100\<rparr>, hide = False\<rparr> \<and>
   delta (projr (fst (currentSpeed_sample ex_config (ex_env [ex_lo, ex_eth0_a, ex_wlan0_b] 11)
          (ex_state (Some ''wlan0:''))))) \<noteq> Some \<lparr>total_rate = 0, up = 0, down = 0\<rparr>"
  by code_simp

text \<open>
  Claim C2, amended. In every call in which the greatest total is exactly 0 and the last
  reported interface is set and is a key of the cycle's \<open>deltas\<close>, the returned interface is
  the last reported interface, the returned numbers are the ones computed in this cycle
  for the last reported interface, and the result signals hide exactly when \<open>hide_if_zero\<close>
  is true. The snapshot and the time are advanced; the last reported interface stays.
\<close>

theorem C2_zero_fallback_reports_last_interface:
  assumes "last_stat st = Some old" and "get_stat self (devfile1 e) = Inr (Some new)"
    and "deltas_loop (time1 e - last_time st) (zip old new) [] = Inr ds"
    and "get_stat self (devfile2 e) = Inr s"
    and "py_max (\<lambda>(k, v). total_rate v) ds = Inr (k, v)" and "total_rate v = 0"
    and "last_interface st = Some li" and "li \<noteq> []" and "map_of ds li = Some d"
  shows "currentSpeed_sample self e st =
           (Inr \<lparr>interface = Some li, delta = Some d, hide = hide_if_zero self\<rparr>,
            st\<lparr>last_stat := s, last_time := time2 e\<rparr>)"
  unfolding currentSpeed_sample_paired [OF assms(1-4)] select_zero [OF assms(5,6)]
  using assms(7,8,9) by simp

theorem C2_zero_fallback_reports_last_interface_witness:
  "py_max (\<lambda>(k, v). total_rate v)
     [(''eth0:'', \<lparr>total_rate = 0, up = 0, down = 0\<rparr>),
      (''wlan0:'', \<lparr>total_rate = - 100, up = 0, down = - 100\<rparr>)] =
     Inr (''eth0:'', \<lparr>total_rate = 0, up = 0, down = 0\<rparr>) \<and>
   last_interface (ex_state (Some ''wlan0:'')) = Some ''wlan0:'' \<and>
   currentSpeed_sample (ex_config\<lparr>hide_if_zero := True\<rparr>)
       (ex_env [ex_lo, ex_eth0_a, ex_wlan0_b] 11) (ex_state (Some ''wlan0:'')) =
     (Inr \<lparr>interface = Some ''wlan0:'',
           delta = Some \<lparr>total_rate = - 100, up = 0, down = - 100\<rparr>, hide = True\<rparr>,
      (ex_state (Some ''wlan0:''))\<lparr>last_stat := Some [words_of ex_eth0_a, words_of ex_wlan0_b],
                                   last_time := 11\<rparr>)"
proof -
  let ?c = "ex_config\<lparr>hide_if_zero := True\<rparr>"
  let ?e = "ex_env [ex_lo, ex_eth0_a, ex_wlan0_b] 11"
  let ?st = "ex_state (Some ''wlan0:'')"
  let ?old = "[words_of ex_eth0_a, words_of ex_wlan0_a]"
  let ?new = "[words_of ex_eth0_a, words_of ex_wlan0_b]"
  let ?ds = "[(''eth0:'', \<lparr>total_rate = 0, up = 0, down = 0\<rparr>),
              (''wlan0:'', \<lparr>total_rate = - 100, up = 0, down = - 100\<rparr>)]"
  have h1: "last_stat ?st = Some ?old" by (simp add: ex_state_def)
  have h2: "get_stat ?c (devfile1 ?e) = Inr (Some ?new)" by code_simp
  have h3: "deltas_loop (time1 ?e - last_time ?st) (zip ?old ?new) [] = Inr ?ds" by code_simp
  have h4: "get_stat ?c (devfile2 ?e) = Inr (Some ?new)" by code_simp
  have h5: "py_max (\<lambda>(k, v). total_rate v) ?ds = Inr (''eth0:'', \<lparr>total_rate = 0, up = 0, down = 0\<rparr>)"
    by code_simp
  have h6: "total_rate \<lparr>total_rate = 0, up = 0, down = 0\<rparr> = 0" by simp
  have h7: "last_interface ?st = Some ''wlan0:''" by (simp add: ex_state_def)
  have h8: "''wlan0:'' \<noteq> []" by simp
  have h9: "map_of ?ds ''wlan0:'' = Some \<lparr>total_rate = - 100, up = 0, down = - 100\<rparr>" by simp
  have t: "time2 ?e = 11" and h: "hide_if_zero ?c = True" by (simp_all add: ex_env_def)
  from C2_zero_fallback_reports_last_interface [OF h1 h2 h3 h4 h5 h6 h7 h8 h9] h5 h7
  show ?thesis unfolding t h by blast
qed

subsection \<open>C3: an elapsed time of zero\<close>

text \<open>
  As stated, C3 says that the division is guarded and the call returns NoData. The source
  divides without a test, and \<open>ZeroDivisionError\<close> is not caught.
\<close>

theorem C3_zero_elapsed_counterexample:
  "time1 (ex_env [ex_eth0_b] 10) - last_time (ex_state None) = 0 \<and>
   currentSpeed_sample ex_config (ex_env [ex_eth0_b] 10) (ex_state None) =
     (Inl ZeroDivisionError, ex_state None) \<and>
   fst (currentSpeed_sample ex_config (ex_env [ex_eth0_b] 10) (ex_state None)) \<noteq>
     Inr (no_data ex_config)"
  by code_simp

text \<open>
  Claim C3, amended. In every call in which the elapsed time is exactly zero and both
  snapshots have a first row, the call raises and leaves the state as it was: it raises
  \<open>ZeroDivisionError\<close> when the two counters of the first pair can be read, and \<open>IndexError\<close>
  or \<open>ValueError\<close> from reading them otherwise. No result is returned, so none holds an
  infinite or undefined rate.
\<close>

theorem C3_zero_elapsed_raises:
  assumes "last_stat st = Some (old # olds)" and "get_stat self (devfile1 e) = Inr (Some (new # news))"
    and "time1 e = last_time st"
  shows "\<exists>err. currentSpeed_sample self e st = (Inl err, st) \<and>
           err \<in> {IndexError, ValueError, ZeroDivisionError} \<and>
           ((\<exists>rx tx. counter_diff old new 1 = Inr rx \<and> counter_diff old new 9 = Inr tx) \<longrightarrow>
              err = ZeroDivisionError)"
proof -
  from pair_delta_zero [of old new] obtain err where
    pd: "pair_delta 0 old new = Inl err" and err: "err \<in> {IndexError, ValueError, ZeroDivisionError}"
    and zd: "(\<exists>rx tx. counter_diff old new 1 = Inr rx \<and> counter_diff old new 9 = Inr tx) \<longrightarrow>
        err = ZeroDivisionError" by blast
  have "try_body self e (Some (new # news)) st = (Inl err, st)"
    using assms(1,3) pd by (simp add: try_body_def ebind_def)
  moreover from err have "err \<noteq> TypeError" by auto
  ultimately have "currentSpeed_sample self e st = (Inl err, st)"
    using assms(2) by (simp add: currentSpeed_sample_def)
  with err zd show ?thesis by blast
qed

theorem C3_zero_elapsed_raises_witness:
  "time1 (ex_env [ex_lo, ex_eth0_b, ex_wlan0_a] 10) = last_time (ex_state None) \<and>
   counter_diff (words_of ex_eth0_a) (words_of ex_eth0_b) 1 = Inr 1000 \<and>
   counter_diff (words_of ex_eth0_a) (words_of ex_eth0_b) 9 = Inr 500 \<and>
   currentSpeed_sample ex_config (ex_env [ex_lo, ex_eth0_b, ex_wlan0_a] 10) (ex_state None) =
     (Inl ZeroDivisionError, ex_state None)"
proof -
  let ?e = "ex_env [ex_lo, ex_eth0_b, ex_wlan0_a] 10"
  have h1: "last_stat (ex_state None) = Some (words_of ex_eth0_a # [words_of ex_wlan0_a])"
    by (simp add: ex_state_def)
  have h2: "get_stat ex_config (devfile1 ?e) = Inr (Some (words_of ex_eth0_b # [words_of ex_wlan0_a]))"
    by code_simp
  have h3: "time1 ?e = last_time (ex_state None)" by (simp add: ex_env_def ex_state_def)
  have rx: "counter_diff (words_of ex_eth0_a) (words_of ex_eth0_b) 1 = Inr 1000"
    and tx: "counter_diff (words_of ex_eth0_a) (words_of ex_eth0_b) 9 = Inr 500" by code_simp+
  from C3_zero_elapsed_raises [OF h1 h2 h3] rx tx h3 show ?thesis by blast
qed

subsection \<open>C4: the state after NoData\<close>




subsection \<open>C5: a devfile that cannot be read\<close>

text \<open>
  As stated, C5 says that an unreadable devfile gives NoData and never an unhandled error.
  The first read stands before the \<open>try\<close> statement, and the handler catches TypeError only.
\<close>

theorem C5_read_failure_counterexample:
  "currentSpeed ex_config (\<lambda>name d. name)
     \<lparr>devfile1 = Inl OSError, time1 = 11, devfile2 = Inl OSError, time2 = 11\<rparr> (ex_state None) =
     (Inl OSError, ex_state None) \<and>
   fst (currentSpeed_sample ex_config
     \<lparr>devfile1 = Inl OSError, time1 = 11, devfile2 = Inl OSError, time2 = 11\<rparr> (ex_state None)) \<noteq>
     Inr (no_data ex_config)"
  by (simp add: currentSpeed_def currentSpeed_sample_def get_stat_def)

text \<open>
  Claim C5, amended. When the devfile cannot be read, the error that \<open>open\<close> raises leaves
  \<open>currentSpeed\<close> (and \<open>__init__\<close>) unhandled and the state is as before the call: this holds
  for the first read, and for the second read of a cycle whose loop has ended unless the
  error is a TypeError.
\<close>

theorem C5_read_failure_propagates:
  "(devfile1 e = Inl err \<longrightarrow>
      currentSpeed_sample self e st = (Inl err, st) \<and>
      currentSpeed self render e st = (Inl err, st) \<and>
      init self (devfile1 e) now = Inl err) \<and>
   (last_stat st = Some old \<and> get_stat self (devfile1 e) = Inr (Some new) \<and>
    deltas_loop (time1 e - last_time st) (zip old new) [] = Inr ds \<and>
    devfile2 e = Inl err \<and> err \<noteq> TypeError \<longrightarrow>
      currentSpeed_sample self e st = (Inl err, st) \<and>
      currentSpeed self render e st = (Inl err, st))"
  by (auto simp: currentSpeed_def currentSpeed_sample_def try_body_def get_stat_def init_def)

theorem C5_read_failure_propagates_witness:
  "currentSpeed ex_config (\<lambda>name d. name)
     \<lparr>devfile1 = Inl OSError, time1 = 11, devfile2 = Inl OSError, time2 = 11\<rparr> (ex_state None) =
     (Inl OSError, ex_state None) \<and>
   init class_defaults (Inl OSError) 10 = Inl OSError \<and>
   currentSpeed ex_config (\<lambda>name d. name)
     \<lparr>devfile1 = Inr (ex_header @ [ex_lo, ex_eth0_b, ex_wlan0_a]), time1 = 11,
      devfile2 = Inl OSError, time2 = 11\<rparr> (ex_state None) =
     (Inl OSError, ex_state None)"
proof -
  let ?e0 = "\<lparr>devfile1 = Inl OSError, time1 = 11, devfile2 = Inl OSError, time2 = 11\<rparr>"
  let ?e1 = "\<lparr>devfile1 = Inr (ex_header @ [ex_lo, ex_eth0_b, ex_wlan0_a]), time1 = 11,
      devfile2 = Inl OSError, time2 = 11\<rparr>"
  let ?old = "[words_of ex_eth0_a, words_of ex_wlan0_a]"
  let ?new = "[words_of ex_eth0_b, words_of ex_wlan0_a]"
  let ?ds = "[(''eth0:'', \<lparr>total_rate = 1500, up = 500, down = 1000\<rparr>),
              (''wlan0:'', \<lparr>total_rate = 0, up = 0, down = 0\<rparr>)]"
  have a: "devfile1 ?e0 = Inl OSError" by simp
  have h1: "last_stat (ex_state None) = Some ?old" by (simp add: ex_state_def)
  have h2: "get_stat ex_config (devfile1 ?e1) = Inr (Some ?new)" by code_simp
  have h3: "deltas_loop (time1 ?e1 - last_time (ex_state None)) (zip ?old ?new) [] = Inr ?ds"
    by code_simp
  have h4: "devfile2 ?e1 = Inl OSError" and h5: "OSError \<noteq> TypeError" by simp_all
  from C5_read_failure_propagates [of ?e0 OSError ex_config "ex_state None" "\<lambda>name d. name" 10] a
  have "currentSpeed ex_config (\<lambda>name d. name) ?e0 (ex_state None) = (Inl OSError, ex_state None)"
    by blast
  moreover
  from C5_read_failure_propagates [of ?e0 OSError class_defaults "ex_state None" "\<lambda>name d. name" 10] a
  have "init class_defaults (Inl OSError) 10 = Inl OSError" by simp
  moreover
  from C5_read_failure_propagates [of ?e1 OSError ex_config "ex_state None" "\<lambda>name d. name" 10 ?old ?new ?ds]
    h1 h2 h3 h4 h5
  have "currentSpeed ex_config (\<lambda>name d. name) ?e1 (ex_state None) = (Inl OSError, ex_state None)"
    by blast
  ultimately show ?thesis by blast
qed

subsection \<open>C6: the rates of a paired row\<close>

text \<open>
  Claim C6. In every cycle whose loop over the paired rows ends, for each index \<open>i\<close> of a
  pair the counters of both rows are read as integers and the entry stored under the name
  of the new row has \<open>down = (new rx - old rx) / elapsed\<close>, \<open>up = (new tx - old tx) / elapsed\<close>
  and \<open>total = up + down\<close>, with no clamping of a negative difference. (A later row of the
  same name would replace the entry; the table of the kernel has none.) The sample of the
  specification, \<open>eth0\<close> from (1000, 200) to (2000, 700) in one second, gives 1000, 500 and
  1500, and a receive counter that went down by 100 gives \<open>-100\<close>.
\<close>

theorem C6_rates_of_paired_rows:
  assumes "deltas_loop elapsed (zip old new) [] = Inr ds"
    and "i < length old" and "i < length new"
    and "\<forall>j. i < j \<and> j < length old \<and> j < length new \<longrightarrow> new ! j ! 0 \<noteq> new ! i ! 0"
  shows "\<exists>rx_new rx_old tx_new tx_old.
           py_int (new ! i ! 1) = Inr rx_new \<and> py_int (old ! i ! 1) = Inr rx_old \<and>
           py_int (new ! i ! 9) = Inr tx_new \<and> py_int (old ! i ! 9) = Inr tx_old \<and>
           map_of ds (new ! i ! 0) =
             Some \<lparr>total_rate = of_int (tx_new - tx_old) / elapsed + of_int (rx_new - rx_old) / elapsed,
                   up = of_int (tx_new - tx_old) / elapsed,
                   down = of_int (rx_new - rx_old) / elapsed\<rparr>"
proof -
  have i: "i < length (zip old new)" using assms(2,3) by simp
  have later: "\<forall>j. i < j \<and> j < length (zip old new) \<longrightarrow>
      snd (zip old new ! j) ! 0 \<noteq> snd (zip old new ! i) ! 0"
    using assms(2,3,4) by simp
  from deltas_loop_nth [OF assms(1) i later] obtain v where
    "pair_delta elapsed (old ! i) (new ! i) = Inr (new ! i ! 0, v)"
    and "map_of ds (new ! i ! 0) = Some v"
    using assms(2,3) by auto
  then show ?thesis
    unfolding pair_delta_eq_Inr counter_diff_eq_Inr by auto
qed

theorem C6_rates_of_paired_rows_witness:
  "deltas_loop 1 (zip [words_of ex_eth0_a, words_of ex_wlan0_a]
                      [words_of ex_eth0_b, words_of ex_wlan0_b]) [] =
     Inr [(''eth0:'', \<lparr>total_rate = 1500, up = 500, down = 1000\<rparr>),
          (''wlan0:'', \<lparr>total_rate = - 100, up = 0, down = - 100\<rparr>)] \<and>
   map_of [(''eth0:'', \<lparr>total_rate = 1500, up = 500, down = 1000\<rparr>),
           (''wlan0:'', \<lparr>total_rate = - 100, up = 0, down = - 100\<rparr>)]
          ([words_of ex_eth0_b, words_of ex_wlan0_b] ! 0 ! 0) =
     Some \<lparr>total_rate = 1500, up = 500, down = 1000\<rparr> \<and>
   fst (currentSpeed_sample ex_config (ex_env [ex_lo, ex_eth0_b, ex_wlan0_b] 11) (ex_state None)) =
     Inr \<lparr>interface = Some ''eth0:'',
          delta = Some \<lparr>total_rate = 1500, up = 500, down = 1000\<rparr>, hide = False\<rparr>"
proof -
  let ?old = "[words_of ex_eth0_a, words_of ex_wlan0_a]"
  let ?new = "[words_of ex_eth0_b, words_of ex_wlan0_b]"
  let ?ds = "[(''eth0:'', \<lparr>total_rate = 1500, up = 500, down = 1000\<rparr>),
          (''wlan0:'', \<lparr>total_rate = - 100, up = 0, down = - 100\<rparr>)]"
  have loop: "deltas_loop 1 (zip ?old ?new) [] = Inr ?ds" by code_simp
  have i: "0 < length ?old" "0 < length ?new" by simp_all
  have later: "\<forall>j. 0 < j \<and> j < length ?old \<and> j < length ?new \<longrightarrow> ?new ! j ! 0 \<noteq> ?new ! 0 ! 0"
  proof (intro allI impI)
    fix j assume "0 < j \<and> j < length ?old \<and> j < length ?new"
    then have "j = 1" by simp
    moreover have "?new ! 1 ! 0 \<noteq> ?new ! 0 ! 0" by code_simp
    ultimately show "?new ! j ! 0 \<noteq> ?new ! 0 ! 0" by simp
  qed
  have rx: "py_int (?new ! 0 ! 1) = Inr 2000" "py_int (?old ! 0 ! 1) = Inr 1000"
    and tx: "py_int (?new ! 0 ! 9) = Inr 700" "py_int (?old ! 0 ! 9) = Inr 200"
    by code_simp+
  from C6_rates_of_paired_rows [OF loop i later] rx tx
  have "map_of ?ds (?new ! 0 ! 0) = Some \<lparr>total_rate = 1500, up = 500, down = 1000\<rparr>"
    by simp
  moreover have "fst (currentSpeed_sample ex_config (ex_env [ex_lo, ex_eth0_b, ex_wlan0_b] 11) (ex_state None)) =
     Inr \<lparr>interface = Some ''eth0:'',
          delta = Some \<lparr>total_rate = 1500, up = 500, down = 1000\<rparr>, hide = False\<rparr>"
    by code_simp
  ultimately show ?thesis using loop by blast
qed

subsection \<open>C7: the interface with the greatest total\<close>



subsection \<open>C8: eligibility of an interface\<close>



subsection \<open>C9: the layout of the table\<close>

text \<open>
  As stated, C9 places the two counters at the fields 1 and 9 counted from 0 among the
  fields after the name. The source reads the words 1 and 9 of the row, where word 0 is
  the name: among the fields after the name these are 0 and 8 counted from 0. In the
  sample the fields 1 and 9 after the name count packets and differ by 7 and 3, while the
  rates come from the byte counters.
\<close>

theorem C9_counter_fields_counterexample:
  "pair_delta 1 (words_of ex_eth0_a) (words_of ex_eth0_b) =
     Inr (''eth0:'', \<lparr>total_rate = 1500, up = 500, down = 1000\<rparr>) \<and>
   counter_diff (tl (words_of ex_eth0_a)) (tl (words_of ex_eth0_b)) 9 = Inr 3 \<and>
   counter_diff (tl (words_of ex_eth0_a)) (tl (words_of ex_eth0_b)) 1 = Inr 7 \<and>
   counter_diff (tl (words_of ex_eth0_a)) (tl (words_of ex_eth0_b)) 8 = Inr 500 \<and>
   counter_diff (tl (words_of ex_eth0_a)) (tl (words_of ex_eth0_b)) 0 = Inr 1000"
  by code_simp

text \<open>
  Claim C9, amended. In every snapshot read the first two lines are skipped, whatever they
  hold. The name that is filtered is the first word of the stripped line without its last
  character: for a line of spaces, a name, a colon and a space it is the name. The receive
  counter used for the rate is the first field after the name and the transmit counter is
  the ninth, counted from one: words 1 and 9 of the row, fields 0 and 8 counted from 0
  after the name.
\<close>

theorem C9_counter_fields:
  "get_stat self (Inr (h1 # h2 # ls)) = Inr (Some (map words_of (filter (dev_filter self) ls))) \<and>
   (CHR '' '' \<notin> set name \<and> name \<noteq> [] \<and> \<not> py_space (hd name) \<longrightarrow>
      dev_name (replicate n CHR '' '' @ name @ '':'' @ CHR '' '' # rest) = name) \<and>
   (pair_delta elapsed old new = Inr (k, d) \<longrightarrow>
      (\<exists>rx_new rx_old tx_new tx_old.
         py_int (tl new ! 0) = Inr rx_new \<and> py_int (tl old ! 0) = Inr rx_old \<and>
         py_int (tl new ! 8) = Inr tx_new \<and> py_int (tl old ! 8) = Inr tx_old \<and>
         k = hd new \<and>
         down d = of_int (rx_new - rx_old) / elapsed \<and>
         up d = of_int (tx_new - tx_old) / elapsed))"
proof (intro conjI impI)
  show "get_stat self (Inr (h1 # h2 # ls)) = Inr (Some (map words_of (filter (dev_filter self) ls)))"
    by (simp add: get_stat_def)
next
  assume "CHR '' '' \<notin> set name \<and> name \<noteq> [] \<and> \<not> py_space (hd name)"
  then show "dev_name (replicate n CHR '' '' @ name @ '':'' @ CHR '' '' # rest) = name"
    using dev_name_of_row by simp
next
  assume "pair_delta elapsed old new = Inr (k, d)"
  then obtain a b c f where len: "9 < length new" "9 < length old"
    and "py_int (new ! 1) = Inr a" "py_int (old ! 1) = Inr b"
    and "py_int (new ! 9) = Inr c" "py_int (old ! 9) = Inr f"
    and "k = new ! 0" "down d = of_int (a - b) / elapsed" "up d = of_int (c - f) / elapsed"
    unfolding pair_delta_eq_Inr counter_diff_eq_Inr by auto
  moreover from len have "new ! 1 = tl new ! 0" "new ! 9 = tl new ! 8" "new ! 0 = hd new"
    "old ! 1 = tl old ! 0" "old ! 9 = tl old ! 8"
    by (cases new; cases old; simp)+
  ultimately show "\<exists>rx_new rx_old tx_new tx_old.
         py_int (tl new ! 0) = Inr rx_new \<and> py_int (tl old ! 0) = Inr rx_old \<and>
         py_int (tl new ! 8) = Inr tx_new \<and> py_int (tl old ! 8) = Inr tx_old \<and>
         k = hd new \<and>
         down d = of_int (rx_new - rx_old) / elapsed \<and>
         up d = of_int (tx_new - tx_old) / elapsed"
    by auto
qed

theorem C9_counter_fields_witness:
  "get_stat ex_config (Inr (ex_header ! 0 # ex_header ! 1 # [ex_lo, ex_eth0_b])) =
     Inr (Some [words_of ex_eth0_b]) \<and>
   dev_name (replicate 2 CHR '' '' @ ''eth0'' @ '':'' @ CHR '' '' # ''2000 17'') = ''eth0'' \<and>
   pair_delta 1 (words_of ex_eth0_a) (words_of ex_eth0_b) =
     Inr (''eth0:'', \<lparr>total_rate = 1500, up = 500, down = 1000\<rparr>) \<and>
   (\<exists>rx_new rx_old tx_new tx_old.
      py_int (tl (words_of ex_eth0_b) ! 0) = Inr rx_new \<and>
      py_int (tl (words_of ex_eth0_a) ! 0) = Inr rx_old \<and>
      py_int (tl (words_of ex_eth0_b) ! 8) = Inr tx_new \<and>
      py_int (tl (words_of ex_eth0_a) ! 8) = Inr tx_old \<and>
      ''eth0:'' = hd (words_of ex_eth0_b) \<and>
      down \<lparr>total_rate = 1500, up = 500, down = 1000\<rparr> = of_int (rx_new - rx_old) / 1 \<and>
      up \<lparr>total_rate = 1500, up = 500, down = 1000\<rparr> = of_int (tx_new - tx_old) / 1)"
proof -
  have f: "map words_of (filter (dev_filter ex_config) [ex_lo, ex_eth0_b]) = [words_of ex_eth0_b]"
    by code_simp
  have n: "CHR '' '' \<notin> set ''eth0'' \<and> ''eth0'' \<noteq> [] \<and> \<not> py_space (hd ''eth0'')"
    by (simp add: py_space_def)
  have p: "pair_delta 1 (words_of ex_eth0_a) (words_of ex_eth0_b) =
     Inr (''eth0:'', \<lparr>total_rate = 1500, up = 500, down = 1000\<rparr>)" by code_simp
  note t = C9_counter_fields [of ex_config "ex_header ! 0" "ex_header ! 1" "[ex_lo, ex_eth0_b]"
      "''eth0''" 2 "''2000 17''" 1 "words_of ex_eth0_a" "words_of ex_eth0_b" "''eth0:''"
      "\<lparr>total_rate = 1500, up = 500, down = 1000\<rparr>"]
  from t f have "get_stat ex_config (Inr (ex_header ! 0 # ex_header ! 1 # [ex_lo, ex_eth0_b])) =
     Inr (Some [words_of ex_eth0_b])" by simp
  moreover from t n
  have "dev_name (replicate 2 CHR '' '' @ ''eth0'' @ '':'' @ CHR '' '' # ''2000 17'') = ''eth0''"
    by blast
  moreover from t p have "\<exists>rx_new rx_old tx_new tx_old.
      py_int (tl (words_of ex_eth0_b) ! 0) = Inr rx_new \<and>
      py_int (tl (words_of ex_eth0_a) ! 0) = Inr rx_old \<and>
      py_int (tl (words_of ex_eth0_b) ! 8) = Inr tx_new \<and>
      py_int (tl (words_of ex_eth0_a) ! 8) = Inr tx_old \<and>
      ''eth0:'' = hd (words_of ex_eth0_b) \<and>
      down \<lparr>total_rate = 1500, up = 500, down = 1000\<rparr> = of_int (rx_new - rx_old) / 1 \<and>
      up \<lparr>total_rate = 1500, up = 500, down = 1000\<rparr> = of_int (tx_new - tx_old) / 1"
    by blast
  ultimately show ?thesis using p by blast
qed

subsection \<open>C10: the fallback lookup can fail\<close>

text \<open>
  Claim C10. In every call in which the greatest total is exactly 0 and the last reported
  interface is set to a name that is not a key of the cycle's \<open>deltas\<close>, the lookup raises
  \<open>KeyError\<close>, which nothing catches; the snapshot and the time are already advanced. With
  the last reported interface set, the fallback returns a result exactly when that name
  is a key of \<open>deltas\<close>.
\<close>

theorem C10_fallback_lookup_KeyError:
  assumes "last_stat st = Some old" and "get_stat self (devfile1 e) = Inr (Some new)"
    and "deltas_loop (time1 e - last_time st) (zip old new) [] = Inr ds"
    and "get_stat self (devfile2 e) = Inr s"
    and "py_max (\<lambda>(k, v). total_rate v) ds = Inr (k, v)" and "total_rate v = 0"
    and "last_interface st = Some li" and "li \<noteq> []"
  shows "(li \<notin> fst ` set ds \<longrightarrow>
            currentSpeed_sample self e st =
              (Inl KeyError, st\<lparr>last_stat := s, last_time := time2 e\<rparr>)) \<and>
         ((\<exists>r st'. currentSpeed_sample self e st = (Inr r, st')) \<longleftrightarrow> li \<in> fst ` set ds)"
proof -
  have sel: "currentSpeed_sample self e st =
      (case map_of ds li of
         None \<Rightarrow> (Inl KeyError, st\<lparr>last_stat := s, last_time := time2 e\<rparr>)
       | Some d \<Rightarrow> (Inr \<lparr>interface = Some li, delta = Some d, hide = hide_if_zero self\<rparr>,
                    st\<lparr>last_stat := s, last_time := time2 e\<rparr>))"
    unfolding currentSpeed_sample_paired [OF assms(1-4)] select_zero [OF assms(5,6)]
    using assms(7,8) by simp
  show ?thesis
  proof (cases "map_of ds li")
    case None
    then have "li \<notin> fst ` set ds" by (simp add: map_of_eq_None_iff)
    with None sel show ?thesis by simp
  next
    case (Some d)
    then have "li \<in> fst ` set ds" by (metis map_of_eq_None_iff option.distinct(1))
    with Some sel show ?thesis by simp
  qed
qed

theorem C10_fallback_lookup_KeyError_witness:
  "py_max (\<lambda>(k, v). total_rate v)
     [(''eth0:'', \<lparr>total_rate = 0, up = 0, down = 0\<rparr>),
      (''wlan0:'', \<lparr>total_rate = 0, up = 0, down = 0\<rparr>)] =
     Inr (''eth0:'', \<lparr>total_rate = 0, up = 0, down = 0\<rparr>) \<and>
   last_interface (ex_state (Some ''ppp0:'')) = Some ''ppp0:'' \<and>
   ''ppp0:'' \<notin> fst ` set [(''eth0:'', \<lparr>total_rate = 0, up = 0, down = 0\<rparr>),
                            (''wlan0:'', \<lparr>total_rate = 0, up = 0, down = 0\<rparr>)] \<and>
   currentSpeed_sample ex_config (ex_env [ex_lo, ex_eth0_a, ex_wlan0_a] 11)
       (ex_state (Some ''ppp0:'')) =
     (Inl KeyError,
      (ex_state (Some ''ppp0:''))\<lparr>last_stat := Some [words_of ex_eth0_a, words_of ex_wlan0_a],
                                  last_time := 11\<rparr>) \<and>
   \<not> (\<exists>r st'. currentSpeed_sample ex_config (ex_env [ex_lo, ex_eth0_a, ex_wlan0_a] 11)
                 (ex_state (Some ''ppp0:'')) = (Inr r, st'))"
proof -
  let ?e = "ex_env [ex_lo, ex_eth0_a, ex_wlan0_a] 11"
  let ?st = "ex_state (Some ''ppp0:'')"
  let ?old = "[words_of ex_eth0_a, words_of ex_wlan0_a]"
  let ?ds = "[(''eth0:'', \<lparr>total_rate = 0, up = 0, down = 0\<rparr>),
              (''wlan0:'', \<lparr>total_rate = 0, up = 0, down = 0\<rparr>)]"
  have h1: "last_stat ?st = Some ?old" by (simp add: ex_state_def)
  have h2: "get_stat ex_config (devfile1 ?e) = Inr (Some ?old)" by code_simp
  have h3: "deltas_loop (time1 ?e - last_time ?st) (zip ?old ?old) [] = Inr ?ds" by code_simp
  have h4: "get_stat ex_config (devfile2 ?e) = Inr (Some ?old)" by code_simp
  have h5: "py_max (\<lambda>(k, v). total_rate v) ?ds = Inr (''eth0:'', \<lparr>total_rate = 0, up = 0, down = 0\<rparr>)"
    by code_simp
  have h6: "total_rate \<lparr>total_rate = 0, up = 0, down = 0\<rparr> = 0" by simp
  have h7: "last_interface ?st = Some ''ppp0:''" by (simp add: ex_state_def)
  have h8: "''ppp0:'' \<noteq> []" by simp
  have k: "''ppp0:'' \<notin> fst ` set ?ds" by simp
  have t: "time2 ?e = 11" by (simp add: ex_env_def)
  from C10_fallback_lookup_KeyError [OF h1 h2 h3 h4 h5 h6 h7 h8] k h5 h7
  show ?thesis unfolding t by blast
qed

end
